theory Spec2Isabelle
  imports Main
begin

section \<open>Values that cross the boundary of the client\<close>

text \<open>
  A JavaScript value that may be \<^verbatim>\<open>undefined\<close> is an \<open>option\<close>: \<open>None\<close> is
  \<^verbatim>\<open>undefined\<close>. An \<^verbatim>\<open>Error\<close> object is its name and its message. Anything can be
  thrown in JavaScript: a thrown value is either an \<^verbatim>\<open>Error\<close> object or some other value,
  which is kept as the string \<^verbatim>\<open>String(error)\<close> gives for it.
\<close>

datatype js_error = JSError string string

datatype thrown = ThrownError js_error | ThrownOther string

text \<open>\<^verbatim>\<open>error instanceof Error ? error : new Error(String(error))\<close>\<close>

fun coalesce :: "thrown \<Rightarrow> js_error" where
  "coalesce (ThrownError e) = e"
| "coalesce (ThrownOther s) = JSError ''Error'' s"

text \<open>
  The option \<^verbatim>\<open>headers?: Record<string, string> | Headers\<close>. The request's headers are
  built by an object spread, which copies the own enumerable properties of its operand:
  the entries of a plain record, none for \<^verbatim>\<open>undefined\<close>, and none for a
  \<^verbatim>\<open>Headers\<close> instance, which keeps its entries in an internal list.
\<close>

datatype headers_init =
  PlainRecord "string \<rightharpoonup> string"
| HeadersInstance "(string \<times> string) list"

fun spread :: "headers_init option \<Rightarrow> (string \<rightharpoonup> string)" where
  "spread None = Map.empty"
| "spread (Some (PlainRecord m)) = m"
| "spread (Some (HeadersInstance es)) = Map.empty"

record ('v, 's) options =
  api :: "string option"
  schema :: 's
  id_opt :: "string option"
  initialValue :: "'v option"
  onFinish :: bool
  onError :: bool
  headers :: "headers_init option"

text \<open>
  \<open>onFinish\<close> and \<open>onError\<close> say whether the callback is configured. The callbacks are
  the caller's code: the model records every invocation with its argument
  (\<open>onFinish_calls\<close>, \<open>onError_calls\<close> below) and takes the callback to return normally.
  The option \<^verbatim>\<open>fetch\<close> is not a field: whichever function performs the request, the model
  records the request and receives the outcome as an event.
\<close>

text \<open>
  The functions imported from \<^verbatim>\<open>@ai-sdk/provider-utils\<close> and \<^verbatim>\<open>@ai-sdk/ui-utils\<close>,
  and \<^verbatim>\<open>JSON.stringify\<close>, are parameters of the model. \<open>generateId n\<close> is the identifier
  that call number \<open>n\<close> of \<^verbatim>\<open>generateId()\<close> returns; \<open>safeValidateTypes\<close> takes the value and
  the schema (\<^verbatim>\<open>asSchema\<close> included) and returns the validation error or the validated
  value, which the schema may allow to be \<^verbatim>\<open>undefined\<close>; \<open>parsePartialJson\<close> returns the
  field \<^verbatim>\<open>value\<close> of its result; \<open>JSON_stringify\<close> throws or returns the text
  (\<^verbatim>\<open>undefined\<close> for an input with no JSON form).
\<close>

record ('i, 'v, 'r, 's) deps =
  generateId :: "nat \<Rightarrow> string"
  isAbortError :: "thrown \<Rightarrow> bool"
  safeValidateTypes :: "'v option \<Rightarrow> 's \<Rightarrow> js_error + 'r option"
  isDeepEqualData :: "'v option \<Rightarrow> 'v option \<Rightarrow> bool"
  parsePartialJson :: "string \<Rightarrow> 'v option"
  JSON_stringify :: "'i \<Rightarrow> thrown + string option"

section \<open>The state of an \<^verbatim>\<open>ObjectClient\<close>\<close>

text \<open>The argument of \<^verbatim>\<open>fetch\<close>: the URL and the init object.\<close>

record request =
  req_url :: string
  req_method :: string
  req_headers :: "string \<rightharpoonup> string"
  req_signal :: nat
  req_body :: "string option"

text \<open>The argument of \<^verbatim>\<open>onFinish\<close>.\<close>

record 'r finish_event =
  ev_object :: "'r option"
  ev_error :: "js_error option"

text \<open>
  \<^verbatim>\<open>submit\<close> is an async function: an activation of it runs until it awaits, and goes on
  when the awaited promise settles. An activation is its local variables and the place
  where it waits: for \<^verbatim>\<open>fetch\<close>, for \<^verbatim>\<open>response.text()\<close>, for \<^verbatim>\<open>pipeTo\<close> (while
  the sink's \<^verbatim>\<open>write\<close> and \<^verbatim>\<open>close\<close> run), or nowhere once it has returned.
  \<open>signal\<close> is the \<^verbatim>\<open>AbortController\<close> that the activation created.
\<close>

datatype phase = AwaitFetch | AwaitText | Streaming | Returned

record 'v call =
  signal :: nat
  phase :: phase
  accumulatedText :: string
  latestObject :: "'v option"

text \<open>
  The private fields of the class (\<open>options\<close>, \<open>object_id\<close> for \<^verbatim>\<open>#id\<close>, \<open>objects\<close>,
  \<open>error\<close>, \<open>loading\<close>, \<open>abortController\<close>), and what the client did to its environment:
  the controllers it aborted, the activations of \<^verbatim>\<open>submit\<close>, the requests it issued, the
  values it had validated and the callbacks it invoked, each in order.
\<close>

record ('v, 'r, 's) client =
  options :: "('v, 's) options"
  object_id :: string
  objects :: "string \<rightharpoonup> 'v option"
  error :: "js_error option"
  loading :: bool
  abortController :: "nat option"
  aborted :: "nat list"
  calls :: "'v call list"
  fetch_calls :: "request list"
  validate_calls :: "'v option list"
  onFinish_calls :: "'r finish_event list"
  onError_calls :: "js_error list"

text \<open>\<^verbatim>\<open>#api = $derived(this.#options.api ?? "/api/completion")\<close>\<close>

definition api_of :: "('v, 's) options \<Rightarrow> string" where
  "api_of opts = (case api opts of None \<Rightarrow> ''/api/completion'' | Some a \<Rightarrow> a)"

text \<open>
  \<^verbatim>\<open>#id = $derived(this.#options.id ?? generateId())\<close>: the expression of the derived,
  evaluated with call number \<open>n\<close> of \<^verbatim>\<open>generateId()\<close>.
\<close>

definition id_expr :: "('i, 'v, 'r, 's) deps \<Rightarrow> ('v, 's) options \<Rightarrow> nat \<Rightarrow> string" where
  "id_expr d opts n = (case id_opt opts of None \<Rightarrow> generateId d n | Some i \<Rightarrow> i)"

text \<open>
  The constructor. \<^verbatim>\<open>this.#objects.set(this.#id, options.initialValue)\<close> reads \<^verbatim>\<open>#id\<close>
  inside the constructor; the getter, \<^verbatim>\<open>submit\<close> and the sink read it again after
  construction. The two reads are two evaluations of the expression: the constructor
  stores the initial value under the key of evaluation 0, and \<open>object_id\<close>, the key of
  the reads after construction, is that of evaluation 1. They are the same key when
  \<^verbatim>\<open>options.id\<close> is given, and different keys when it is not and \<^verbatim>\<open>generateId()\<close>
  returns a new identifier at each call.
\<close>

definition ObjectClient ::
  "('i, 'v, 'r, 's) deps \<Rightarrow> ('v, 's) options \<Rightarrow> ('v, 'r, 's) client" where
  "ObjectClient d opts =
     \<lparr> options = opts, object_id = id_expr d opts (Suc 0),
       objects = [id_expr d opts 0 \<mapsto> initialValue opts],
       error = None, loading = False, abortController = None,
       aborted = [], calls = [], fetch_calls = [], validate_calls = [],
       onFinish_calls = [], onError_calls = [] \<rparr>"

text \<open>The getter \<^verbatim>\<open>object\<close>: \<^verbatim>\<open>this.#objects.get(this.#id)\<close>, undefined for a missing key.\<close>

definition object :: "('v, 'r, 's) client \<Rightarrow> 'v option" where
  "object w = (case objects w (object_id w) of None \<Rightarrow> None | Some v \<Rightarrow> v)"

section \<open>\<^verbatim>\<open>stop\<close> and \<^verbatim>\<open>submit\<close>\<close>

definition stop :: "('v, 'r, 's) client \<Rightarrow> ('v, 'r, 's) client" where
  "stop w =
     w\<lparr> aborted := (case abortController w of None \<Rightarrow> aborted w | Some c \<Rightarrow> aborted w @ [c]),
        loading := False,
        abortController := None \<rparr>"

definition set_phase :: "nat \<Rightarrow> phase \<Rightarrow> ('v, 'r, 's) client \<Rightarrow> ('v, 'r, 's) client" where
  "set_phase k p w = w\<lparr> calls := (calls w)[k := (calls w ! k)\<lparr> phase := p \<rparr>] \<rparr>"

text \<open>The \<^verbatim>\<open>catch\<close> block of \<^verbatim>\<open>submit\<close>, for activation \<open>k\<close> and the thrown value.\<close>

definition catch_block ::
  "('i, 'v, 'r, 's) deps \<Rightarrow> nat \<Rightarrow> thrown \<Rightarrow> ('v, 'r, 's) client \<Rightarrow> ('v, 'r, 's) client" where
  "catch_block d k t w =
     (if isAbortError d t then set_phase k Returned w
      else
        let coalescedError = coalesce t;
            w1 = (if onError (options w)
                  then w\<lparr> onError_calls := onError_calls w @ [coalescedError] \<rparr> else w)
        in set_phase k Returned (w1\<lparr> loading := False, error := Some coalescedError \<rparr>))"

text \<open>The first three statements of \<^verbatim>\<open>submit\<close>.\<close>

definition submit_reset :: "('v, 'r, 's) client \<Rightarrow> ('v, 'r, 's) client" where
  "submit_reset w =
     w\<lparr> objects := (objects w)(object_id w \<mapsto> None), loading := True, error := None \<rparr>"

text \<open>
  The rest of \<^verbatim>\<open>submit\<close> up to its first \<^verbatim>\<open>await\<close>: the new controller, then the call
  of \<^verbatim>\<open>fetch\<close>, whose arguments are evaluated first (\<^verbatim>\<open>JSON.stringify\<close> may throw).
  The new activation is number \<open>length (calls w)\<close>, and so is its controller.
\<close>

definition submit_send ::
  "('i, 'v, 'r, 's) deps \<Rightarrow> 'i \<Rightarrow> ('v, 'r, 's) client \<Rightarrow> ('v, 'r, 's) client" where
  "submit_send d input w =
     (let k = length (calls w);
          w1 = w\<lparr> abortController := Some k,
                  calls := calls w @ [\<lparr> signal = k, phase = AwaitFetch,
                                       accumulatedText = [], latestObject = None \<rparr>] \<rparr>
      in case JSON_stringify d input of
           Inl t \<Rightarrow> catch_block d k t w1
         | Inr b \<Rightarrow>
             w1\<lparr> fetch_calls := fetch_calls w1 @
                   [\<lparr> req_url = api_of (options w1), req_method = ''POST'',
                      req_headers = [''Content-Type'' \<mapsto> ''application/json'']
                                      ++ spread (headers (options w1)),
                      req_signal = k, req_body = b \<rparr>] \<rparr>)"

definition submit ::
  "('i, 'v, 'r, 's) deps \<Rightarrow> 'i \<Rightarrow> ('v, 'r, 's) client \<Rightarrow> ('v, 'r, 's) client" where
  "submit d input w = submit_send d input (submit_reset w)"

text \<open>The response that \<^verbatim>\<open>fetch\<close> resolved with: \<^verbatim>\<open>ok\<close>, and whether \<^verbatim>\<open>body\<close> is not null.\<close>

record response =
  ok :: bool
  has_body :: bool

definition fetch_resolved ::
  "('i, 'v, 'r, 's) deps \<Rightarrow> nat \<Rightarrow> response \<Rightarrow> ('v, 'r, 's) client \<Rightarrow> ('v, 'r, 's) client" where
  "fetch_resolved d k r w =
     (if \<not> ok r then set_phase k AwaitText w
      else if \<not> has_body r
      then catch_block d k (ThrownError (JSError ''Error'' ''The response body is empty.'')) w
      else w\<lparr> calls := (calls w)[k := (calls w ! k)\<lparr> phase := Streaming,
                 accumulatedText := [], latestObject := None \<rparr>] \<rparr>)"

text \<open>
  \<^verbatim>\<open>throw new Error((await response.text()) ?? "Failed to fetch the response.")\<close>, once
  \<^verbatim>\<open>response.text()\<close> has resolved.
\<close>

definition text_resolved ::
  "('i, 'v, 'r, 's) deps \<Rightarrow> nat \<Rightarrow> string option \<Rightarrow> ('v, 'r, 's) client \<Rightarrow> ('v, 'r, 's) client" where
  "text_resolved d k t w =
     catch_block d k
       (ThrownError (JSError ''Error''
          (case t of None \<Rightarrow> ''Failed to fetch the response.'' | Some s \<Rightarrow> s))) w"

text \<open>The sink's \<^verbatim>\<open>write\<close>.\<close>

definition sink_write ::
  "('i, 'v, 'r, 's) deps \<Rightarrow> nat \<Rightarrow> string \<Rightarrow> ('v, 'r, 's) client \<Rightarrow> ('v, 'r, 's) client" where
  "sink_write d k chunk w =
     (let c = calls w ! k;
          text = accumulatedText c @ chunk;
          currentObject = parsePartialJson d text
      in if \<not> isDeepEqualData d (latestObject c) currentObject
         then w\<lparr> objects := (objects w)(object_id w \<mapsto> currentObject),
                 calls := (calls w)[k := c\<lparr> accumulatedText := text,
                                             latestObject := currentObject \<rparr>] \<rparr>
         else w\<lparr> calls := (calls w)[k := c\<lparr> accumulatedText := text \<rparr>] \<rparr>)"

text \<open>The sink's \<^verbatim>\<open>close\<close>, after which \<^verbatim>\<open>pipeTo\<close> resolves and \<^verbatim>\<open>submit\<close> returns.\<close>

definition sink_close ::
  "('i, 'v, 'r, 's) deps \<Rightarrow> nat \<Rightarrow> ('v, 'r, 's) client \<Rightarrow> ('v, 'r, 's) client" where
  "sink_close d k w =
     (let c = calls w ! k;
          w1 = w\<lparr> loading := False, abortController := None \<rparr>;
          w2 = (if onFinish (options w1)
                then
                  let validationResult =
                        safeValidateTypes d (latestObject c) (schema (options w1))
                  in w1\<lparr> validate_calls := validate_calls w1 @ [latestObject c],
                          onFinish_calls := onFinish_calls w1 @
                            [case validationResult of
                               Inr v \<Rightarrow> \<lparr> ev_object = v, ev_error = None \<rparr>
                             | Inl e \<Rightarrow> \<lparr> ev_object = None, ev_error = Some e \<rparr>] \<rparr>
                else w1)
      in set_phase k Returned w2)"

section \<open>Runs of a client\<close>

text \<open>
  What can happen to a client: its two methods are called, and the promise that
  activation \<open>k\<close> awaits settles, or its stream delivers a chunk or closes. An event for
  an activation that is not waiting for it does not happen.
\<close>

datatype 'i event =
  Submit 'i
| Stop
| FetchResolved nat response
| TextResolved nat "string option"
| Rejected nat thrown
| Chunk nat string
| Closed nat

definition waiting :: "('v, 'r, 's) client \<Rightarrow> nat \<Rightarrow> phase \<Rightarrow> bool" where
  "waiting w k p = (k < length (calls w) \<and> phase (calls w ! k) = p)"

fun step ::
  "('i, 'v, 'r, 's) deps \<Rightarrow> 'i event \<Rightarrow> ('v, 'r, 's) client \<Rightarrow> ('v, 'r, 's) client" where
  "step d (Submit input) w = submit d input w"
| "step d Stop w = stop w"
| "step d (FetchResolved k r) w = (if waiting w k AwaitFetch then fetch_resolved d k r w else w)"
| "step d (TextResolved k t) w = (if waiting w k AwaitText then text_resolved d k t w else w)"
| "step d (Rejected k t) w =
     (if k < length (calls w) \<and> phase (calls w ! k) \<noteq> Returned then catch_block d k t w else w)"
| "step d (Chunk k chunk) w = (if waiting w k Streaming then sink_write d k chunk w else w)"
| "step d (Closed k) w = (if waiting w k Streaming then sink_close d k w else w)"

fun exec ::
  "('i, 'v, 'r, 's) deps \<Rightarrow> 'i event list \<Rightarrow> ('v, 'r, 's) client \<Rightarrow> ('v, 'r, 's) client" where
  "exec d [] w = w"
| "exec d (e # es) w = exec d es (step d e w)"

section \<open>The request-parameter hook\<close>

text \<open>
  An object is a map from its own keys to their values, and a value may be
  \<^verbatim>\<open>undefined\<close>: a key can be present with the value undefined. Reading a property gives
  undefined for a missing key.
\<close>

type_synonym 'a js_object = "string \<rightharpoonup> 'a option"

definition read_property :: "'a js_object \<Rightarrow> string \<Rightarrow> 'a option" where
  "read_property obj k = (case obj k of None \<Rightarrow> None | Some v \<Rightarrow> v)"

record 'a middleware =
  middlewareVersion :: string
  transformParams :: "'a js_object \<Rightarrow> 'a js_object"

text \<open>
  \<^verbatim>\<open>mergeObjects\<close> is imported from \<^verbatim>\<open>../util/merge-objects\<close> and is a parameter here.
  The object literal spreads \<^verbatim>\<open>settings\<close>, then \<^verbatim>\<open>params\<close>, then sets
  \<^verbatim>\<open>providerMetadata\<close>: a later entry replaces an earlier one with the same key.
\<close>

definition defaultSettingsMiddleware ::
  "('a option \<Rightarrow> 'a option \<Rightarrow> 'a option) \<Rightarrow> 'a js_object \<Rightarrow> 'a middleware" where
  "defaultSettingsMiddleware mergeObjects settings =
     \<lparr> middlewareVersion = ''v1'',
       transformParams = (\<lambda>params.
         (settings ++ params)
           (''providerMetadata'' \<mapsto>
              mergeObjects (read_property settings ''providerMetadata'')
                           (read_property params ''providerMetadata''))) \<rparr>"

section \<open>A small instance\<close>

text \<open>
  Concrete collaborators on which the theorems below are exercised: partial values
  and results are natural numbers, the parser reads the number of characters other than
  spaces (undefined when there is none), deep equality is equality, the generated
  identifiers are all different, a schema accepts
  anything (as \<^verbatim>\<open>z.any()\<close> does) or the numbers up to a bound, an abort error is an
  \<^verbatim>\<open>Error\<close> named \<^verbatim>\<open>AbortError\<close>, and the input is a string that serialises to itself.
\<close>

datatype example_schema = AnyValue | AtMost nat

fun example_validate :: "nat option \<Rightarrow> example_schema \<Rightarrow> js_error + nat option" where
  "example_validate v AnyValue = Inr v"
| "example_validate None (AtMost n) = Inl (JSError ''TypeValidationError'' ''Required'')"
| "example_validate (Some m) (AtMost n) =
     (if m \<le> n then Inr (Some m) else Inl (JSError ''TypeValidationError'' ''Too big''))"

fun example_isAbortError :: "thrown \<Rightarrow> bool" where
  "example_isAbortError (ThrownError (JSError n m)) = (n = ''AbortError'')"
| "example_isAbortError (ThrownOther s) = False"

definition example_generateId :: "nat \<Rightarrow> string" where
  "example_generateId n = ''generated-'' @ replicate n (CHR ''i'')"

definition example_parse :: "string \<Rightarrow> nat option" where
  "example_parse s =
     (let n = length (filter (\<lambda>c. c \<noteq> CHR '' '') s) in if n = 0 then None else Some n)"

definition example_deps :: "(string, nat, nat, example_schema) deps" where
  "example_deps =
     \<lparr> generateId = example_generateId, isAbortError = example_isAbortError,
       safeValidateTypes = example_validate, isDeepEqualData = (=),
       parsePartialJson = example_parse, JSON_stringify = (\<lambda>i. Inr (Some i)) \<rparr>"

definition example_options ::
  "example_schema \<Rightarrow> bool \<Rightarrow> headers_init option \<Rightarrow> (nat, example_schema) options" where
  "example_options sch fin hs =
     \<lparr> api = Some ''/api/object'', schema = sch, id_opt = None, initialValue = Some 7,
       onFinish = fin, onError = True, headers = hs \<rparr>"

definition example_client ::
  "example_schema \<Rightarrow> bool \<Rightarrow> headers_init option \<Rightarrow> (nat, nat, example_schema) client" where
  "example_client sch fin hs = ObjectClient example_deps (example_options sch fin hs)"

definition example_response :: "bool \<Rightarrow> bool \<Rightarrow> response" where
  "example_response is_ok with_body = \<lparr> ok = is_ok, has_body = with_body \<rparr>"

text \<open>A client that has submitted \<^verbatim>\<open>"q"\<close>, got a response and read the chunk \<^verbatim>\<open>"12"\<close>.\<close>

definition example_streaming ::
  "example_schema \<Rightarrow> bool \<Rightarrow> (nat, nat, example_schema) client" where
  "example_streaming sch fin =
     exec example_deps
       [Submit ''q'', FetchResolved 0 (example_response True True), Chunk 0 ''12'']
       (example_client sch fin None)"

text \<open>Values for the parameter hook: numbers and flat records, merged key by key.\<close>

datatype example_value = Num nat | Rec "(string \<times> nat) list"

fun example_mergeObjects ::
  "example_value option \<Rightarrow> example_value option \<Rightarrow> example_value option" where
  "example_mergeObjects None b = b"
| "example_mergeObjects (Some a) None = Some a"
| "example_mergeObjects (Some (Rec a)) (Some (Rec b)) =
     Some (Rec (filter (\<lambda>(k, v). map_of b k = None) a @ b))"
| "example_mergeObjects (Some a) (Some b) = Some b"

definition example_settings :: "example_value js_object" where
  "example_settings =
     [''temperature'' \<mapsto> Some (Num 1), ''seed'' \<mapsto> Some (Num 3),
      ''providerMetadata'' \<mapsto> Some (Rec [(''a'', 1), (''b'', 2)])]"

definition example_params :: "example_value js_object" where
  "example_params =
     [''temperature'' \<mapsto> Some (Num 2), ''providerMetadata'' \<mapsto> Some (Rec [(''b'', 5)])]"

section \<open>Unfolding the handlers\<close>

lemmas handler_defs = submit_def submit_reset_def submit_send_def catch_block_def set_phase_def
  fetch_resolved_def text_resolved_def sink_write_def sink_close_def stop_def waiting_def
  object_def

lemmas example_defs = example_deps_def example_options_def example_client_def
  example_response_def example_parse_def example_streaming_def example_generateId_def
  ObjectClient_def id_expr_def api_of_def

section \<open>Construction and the start of a submission\<close>

text \<open>
  After the constructor, and before any call of \<^verbatim>\<open>submit\<close>, \<^verbatim>\<open>error\<close> is undefined and
  \<^verbatim>\<open>loading\<close> is false. The getter \<^verbatim>\<open>object\<close> returns \<^verbatim>\<open>options.initialValue\<close> when
  the key the constructor stored it under is the key the getter reads, as it is when
  \<^verbatim>\<open>options.id\<close> is given, and undefined otherwise.
\<close>

lemma constructor_state:
  "object (ObjectClient d opts)
     = (if id_expr d opts 0 = id_expr d opts (Suc 0) then initialValue opts else None)
   \<and> (id_opt opts = Some i \<longrightarrow> object (ObjectClient d opts) = initialValue opts)
   \<and> error (ObjectClient d opts) = None
   \<and> loading (ObjectClient d opts) = False"
  by (simp add: ObjectClient_def object_def id_expr_def)


text \<open>
  C6. \<^verbatim>\<open>submit\<close> begins by storing undefined under the client's id, setting \<^verbatim>\<open>loading\<close>
  and clearing \<^verbatim>\<open>error\<close>, all before the request is issued: no request has been added
  when the three assignments are done, the request is issued from that state, and the
  stored object is still undefined when \<^verbatim>\<open>submit\<close> reaches its first \<^verbatim>\<open>await\<close>, whatever
  the client held before and whichever submissions were pending.
\<close>

theorem submit_discards_object_first:
  "object (submit_reset w) = None
   \<and> loading (submit_reset w) = True
   \<and> error (submit_reset w) = None
   \<and> fetch_calls (submit_reset w) = fetch_calls w
   \<and> step d (Submit input) w = submit_send d input (submit_reset w)
   \<and> object (step d (Submit input) w) = None"
  by (simp add: submit_def submit_reset_def submit_send_def catch_block_def set_phase_def
      object_def Let_def split: sum.split)

section \<open>The end of a stream\<close>

text \<open>
  C1. When a stream closes on a client with an \<^verbatim>\<open>onFinish\<close> callback and the latest
  parsed value fails validation against the schema, \<^verbatim>\<open>onFinish\<close> is invoked once, with
  \<^verbatim>\<open>object\<close> undefined and \<^verbatim>\<open>error\<close> the validation error; the field \<^verbatim>\<open>error\<close> of the
  client keeps the value it had (unset, if it was unset), \<^verbatim>\<open>onError\<close> is not invoked, and
  \<^verbatim>\<open>submit\<close> returns.
\<close>

theorem validation_failure_reaches_onFinish_only:
  assumes "waiting w k Streaming"
    and "onFinish (options w)"
    and "safeValidateTypes d (latestObject (calls w ! k)) (schema (options w)) = Inl e"
  shows "onFinish_calls (step d (Closed k) w)
           = onFinish_calls w @ [\<lparr> ev_object = None, ev_error = Some e \<rparr>]
       \<and> error (step d (Closed k) w) = error w
       \<and> onError_calls (step d (Closed k) w) = onError_calls w
       \<and> phase (calls (step d (Closed k) w) ! k) = Returned"
  using assms by (simp add: handler_defs Let_def)

text \<open>
  The same on the instance: the chunk \<^verbatim>\<open>"12"\<close> parses to 2, the schema accepts at most 1,
  and after the close the client's \<^verbatim>\<open>error\<close> is still unset.
\<close>

theorem validation_failure_reaches_onFinish_only_witness:
  "waiting (example_streaming (AtMost 1) True) 0 Streaming
   \<and> onFinish (options (example_streaming (AtMost 1) True))
   \<and> onFinish_calls (step example_deps (Closed 0) (example_streaming (AtMost 1) True))
       = [\<lparr> ev_object = None, ev_error = Some (JSError ''TypeValidationError'' ''Too big'') \<rparr>]
   \<and> error (step example_deps (Closed 0) (example_streaming (AtMost 1) True)) = None
   \<and> onError_calls (step example_deps (Closed 0) (example_streaming (AtMost 1) True)) = []"
proof -
  let ?w = "example_streaming (AtMost 1) True"
  have h1: "waiting ?w 0 Streaming"
    by (simp add: handler_defs example_defs Let_def)
  have h2: "onFinish (options ?w)"
    by (simp add: handler_defs example_defs Let_def)
  have h3: "safeValidateTypes example_deps (latestObject (calls ?w ! 0)) (schema (options ?w))
              = Inl (JSError ''TypeValidationError'' ''Too big'')"
    by (simp add: handler_defs example_defs Let_def)
  have before: "onFinish_calls ?w = [] \<and> error ?w = None \<and> onError_calls ?w = []"
    by (simp add: handler_defs example_defs Let_def)
  from validation_failure_reaches_onFinish_only [OF h1 h2 h3] h1 h2 before
  show ?thesis by simp
qed

text \<open>
  C2, as amended. When a stream closes, the value the sink's \<^verbatim>\<open>write\<close> last kept in
  \<^verbatim>\<open>latestObject\<close> is validated against the schema exactly when an \<^verbatim>\<open>onFinish\<close> callback
  is configured, and the callback receives the outcome of that validation; without the
  callback nothing is validated. After every chunk \<^verbatim>\<open>latestObject\<close> is the parse of the
  text accumulated so far, or the value kept before when the two are deep-equal.
\<close>

theorem close_validates_latest_when_onFinish:
  assumes "waiting w k Streaming"
  shows "validate_calls (step d (Closed k) w)
           = (if onFinish (options w) then validate_calls w @ [latestObject (calls w ! k)]
              else validate_calls w)
       \<and> onFinish_calls (step d (Closed k) w)
           = (if onFinish (options w)
              then onFinish_calls w @
                [case safeValidateTypes d (latestObject (calls w ! k)) (schema (options w)) of
                   Inr v \<Rightarrow> \<lparr> ev_object = v, ev_error = None \<rparr>
                 | Inl e \<Rightarrow> \<lparr> ev_object = None, ev_error = Some e \<rparr>]
              else onFinish_calls w)
       \<and> loading (step d (Closed k) w) = False
       \<and> phase (calls (step d (Closed k) w) ! k) = Returned
       \<and> latestObject (calls (step d (Chunk k chunk) w) ! k)
           = (let v = parsePartialJson d (accumulatedText (calls w ! k) @ chunk)
              in if isDeepEqualData d (latestObject (calls w ! k)) v
                 then latestObject (calls w ! k) else v)"
  using assms by (simp add: handler_defs Let_def)

theorem close_validates_latest_when_onFinish_witness:
  "waiting (example_streaming (AtMost 5) True) 0 Streaming
   \<and> validate_calls (step example_deps (Closed 0) (example_streaming (AtMost 5) True))
       = [Some 2]
   \<and> onFinish_calls (step example_deps (Closed 0) (example_streaming (AtMost 5) True))
       = [\<lparr> ev_object = Some 2, ev_error = None \<rparr>]"
proof -
  let ?w = "example_streaming (AtMost 5) True"
  have h1: "waiting ?w 0 Streaming"
    by (simp add: handler_defs example_defs Let_def)
  have before: "onFinish (options ?w) \<and> validate_calls ?w = [] \<and> onFinish_calls ?w = []
      \<and> latestObject (calls ?w ! 0) = Some 2 \<and> schema (options ?w) = AtMost 5"
    by (simp add: handler_defs example_defs Let_def)
  from close_validates_latest_when_onFinish [OF h1, of example_deps] h1 before
  show ?thesis by (simp add: example_deps_def)
qed

text \<open>
  C2 as it is written fails: on a client without \<^verbatim>\<open>onFinish\<close> the stream of the chunk
  \<^verbatim>\<open>"12"\<close> closes, \<^verbatim>\<open>submit\<close> returns with the object 2 published, and nothing has been
  validated.
\<close>

theorem close_without_onFinish_validates_nothing:
  "validate_calls (step example_deps (Closed 0) (example_streaming (AtMost 5) False)) = []
   \<and> phase (calls (step example_deps (Closed 0) (example_streaming (AtMost 5) False)) ! 0)
       = Returned
   \<and> object (step example_deps (Closed 0) (example_streaming (AtMost 5) False)) = Some 2"
  by (simp add: handler_defs example_defs Let_def)

lemma step_options: "options (step d e w) = options w"
  by (cases e) (simp_all add: handler_defs Let_def split: sum.split)

lemma step_finish_validate:
  assumes "onFinish_calls w = map f (validate_calls w)"
    and "f = (\<lambda>v. case safeValidateTypes d v (schema (options w)) of
                   Inr r \<Rightarrow> \<lparr> ev_object = r, ev_error = None \<rparr>
                 | Inl e \<Rightarrow> \<lparr> ev_object = None, ev_error = Some e \<rparr>)"
  shows "onFinish_calls (step d e w) = map f (validate_calls (step d e w))"
  using assms by (cases e) (simp_all add: handler_defs Let_def split: sum.split)

lemma exec_finish_validate:
  assumes "onFinish_calls w = map f (validate_calls w)"
    and "f = (\<lambda>v. case safeValidateTypes d v (schema (options w)) of
                   Inr r \<Rightarrow> \<lparr> ev_object = r, ev_error = None \<rparr>
                 | Inl e \<Rightarrow> \<lparr> ev_object = None, ev_error = Some e \<rparr>)"
  shows "onFinish_calls (exec d evs w) = map f (validate_calls (exec d evs w))"
  using assms
proof (induction evs arbitrary: w)
  case Nil
  then show ?case by simp
next
  case (Cons e evs)
  have "onFinish_calls (step d e w) = map f (validate_calls (step d e w))"
    using Cons.prems by (rule step_finish_validate)
  moreover have "f = (\<lambda>v. case safeValidateTypes d v (schema (options (step d e w))) of
                   Inr r \<Rightarrow> \<lparr> ev_object = r, ev_error = None \<rparr>
                 | Inl e \<Rightarrow> \<lparr> ev_object = None, ev_error = Some e \<rparr>)"
    using Cons.prems(2) by (simp add: step_options)
  ultimately show ?case using Cons.IH by simp
qed

text \<open>
  C3, as amended. In every run of a client, the arguments \<^verbatim>\<open>onFinish\<close> has received
  are, in order, the outcomes of the validations performed: for a successful validation
  \<^verbatim>\<open>object\<close> is the validated value (undefined only if the schema accepted undefined) and
  \<^verbatim>\<open>error\<close> is undefined, for a failed one \<^verbatim>\<open>object\<close> is undefined and \<^verbatim>\<open>error\<close> is the
  validation error. No invocation has both fields defined.
\<close>

theorem onFinish_never_both:
  "onFinish_calls (exec d evs (ObjectClient d opts))
     = map (\<lambda>v. case safeValidateTypes d v (schema opts) of
                   Inr r \<Rightarrow> \<lparr> ev_object = r, ev_error = None \<rparr>
                 | Inl e \<Rightarrow> \<lparr> ev_object = None, ev_error = Some e \<rparr>)
           (validate_calls (exec d evs (ObjectClient d opts)))
   \<and> (\<forall>ev \<in> set (onFinish_calls (exec d evs (ObjectClient d opts))).
         ev_object ev = None \<or> ev_error ev = None)"
proof -
  let ?f = "\<lambda>v. case safeValidateTypes d v (schema opts) of
                   Inr r \<Rightarrow> \<lparr> ev_object = r, ev_error = None \<rparr>
                 | Inl e \<Rightarrow> \<lparr> ev_object = None, ev_error = Some e \<rparr>"
  have eq: "onFinish_calls (exec d evs (ObjectClient d opts))
          = map ?f (validate_calls (exec d evs (ObjectClient d opts)))"
    by (rule exec_finish_validate) (simp_all add: ObjectClient_def Let_def)
  have "\<forall>v. ev_object (?f v) = None \<or> ev_error (?f v) = None"
    by (simp split: sum.split)
  then have "\<forall>ev \<in> set (map ?f (validate_calls (exec d evs (ObjectClient d opts)))).
         ev_object ev = None \<or> ev_error ev = None"
    by auto
  with eq show ?thesis by simp
qed

text \<open>
  On the instance: the one invocation in the run below has an undefined \<^verbatim>\<open>object\<close>.
\<close>

theorem onFinish_never_both_witness:
  "hd (onFinish_calls (exec example_deps
          [Submit ''q'', FetchResolved 0 (example_response True True), Chunk 0 ''12'', Closed 0]
          (ObjectClient example_deps (example_options (AtMost 1) True None))))
     \<in> set (onFinish_calls (exec example_deps
          [Submit ''q'', FetchResolved 0 (example_response True True), Chunk 0 ''12'', Closed 0]
          (ObjectClient example_deps (example_options (AtMost 1) True None))))
   \<and> (ev_object (hd (onFinish_calls (exec example_deps
          [Submit ''q'', FetchResolved 0 (example_response True True), Chunk 0 ''12'', Closed 0]
          (ObjectClient example_deps (example_options (AtMost 1) True None))))) = None
      \<or> ev_error (hd (onFinish_calls (exec example_deps
          [Submit ''q'', FetchResolved 0 (example_response True True), Chunk 0 ''12'', Closed 0]
          (ObjectClient example_deps (example_options (AtMost 1) True None))))) = None)"
proof -
  let ?run = "exec example_deps
          [Submit ''q'', FetchResolved 0 (example_response True True), Chunk 0 ''12'', Closed 0]
          (ObjectClient example_deps (example_options (AtMost 1) True None))"
  have mem: "hd (onFinish_calls ?run) \<in> set (onFinish_calls ?run)"
    by (simp add: handler_defs example_defs Let_def)
  have every: "\<forall>ev \<in> set (onFinish_calls ?run). ev_object ev = None \<or> ev_error ev = None"
    by (rule conjunct2 [OF onFinish_never_both])
  have one: "ev_object (hd (onFinish_calls ?run)) = None
           \<or> ev_error (hd (onFinish_calls ?run)) = None"
    by (rule bspec [OF every mem])
  show ?thesis by (rule conjI [OF mem one])
qed

text \<open>
  C3 as it is written fails: with a schema that accepts any value, a stream that closes
  before any chunk makes \<^verbatim>\<open>onFinish\<close> receive undefined in both fields.
\<close>

theorem onFinish_both_undefined:
  "onFinish_calls (exec example_deps
      [Submit ''q'', FetchResolved 0 (example_response True True), Closed 0]
      (example_client AnyValue True None))
   = [\<lparr> ev_object = None, ev_error = None \<rparr>]"
  by (simp add: handler_defs example_defs Let_def)

section \<open>Failures and cancellation\<close>

text \<open>
  C4. Provided \<^verbatim>\<open>isAbortError\<close> rejects a plain \<^verbatim>\<open>Error\<close>: when \<^verbatim>\<open>fetch\<close> resolves with an
  ok response whose body is null, an \<^verbatim>\<open>Error\<close> is stored in the field \<^verbatim>\<open>error\<close>, passed to
  \<^verbatim>\<open>onError\<close> if that callback is configured, and \<^verbatim>\<open>loading\<close> becomes false. When the
  response is not ok, \<^verbatim>\<open>submit\<close> waits for the response text, and the same holds once the
  text is there, with the text (or the default message) as the message of the
  \<^verbatim>\<open>Error\<close>; if reading the text fails with something that is not an abort error, that
  failure is surfaced the same way, as an \<^verbatim>\<open>Error\<close> object.
\<close>

theorem http_failure_surfaces_error:
  assumes "\<forall>m. \<not> isAbortError d (ThrownError (JSError ''Error'' m))"
  shows "(waiting w k AwaitFetch \<and> ok r \<and> \<not> has_body r \<longrightarrow>
           (let e = JSError ''Error'' ''The response body is empty.'';
                w' = step d (FetchResolved k r) w
            in error w' = Some e \<and> loading w' = False
               \<and> onError_calls w' = (if onError (options w) then onError_calls w @ [e]
                                      else onError_calls w)))
       \<and> (waiting w k AwaitFetch \<and> \<not> ok r \<longrightarrow>
            waiting (step d (FetchResolved k r) w) k AwaitText)
       \<and> (waiting w k AwaitText \<longrightarrow>
           (let e = JSError ''Error''
                      (case t of None \<Rightarrow> ''Failed to fetch the response.'' | Some s \<Rightarrow> s);
                w' = step d (TextResolved k t) w
            in error w' = Some e \<and> loading w' = False
               \<and> onError_calls w' = (if onError (options w) then onError_calls w @ [e]
                                      else onError_calls w)))
       \<and> (waiting w k AwaitText \<and> \<not> isAbortError d x \<longrightarrow>
           (let e = coalesce x;
                w' = step d (Rejected k x) w
            in error w' = Some e \<and> loading w' = False
               \<and> onError_calls w' = (if onError (options w) then onError_calls w @ [e]
                                      else onError_calls w)))"
  using assms by (simp add: handler_defs Let_def)

text \<open>
  On the instance: a null body; a response that is not ok, followed by its text; and
  the same response followed by a failure to read the text, thrown as a string.
\<close>

theorem http_failure_surfaces_error_witness:
  "(\<forall>m. \<not> isAbortError example_deps (ThrownError (JSError ''Error'' m)))
   \<and> error (exec example_deps [Submit ''q'', FetchResolved 0 (example_response True False)]
        (example_client AnyValue True None))
       = Some (JSError ''Error'' ''The response body is empty.'')
   \<and> loading (exec example_deps [Submit ''q'', FetchResolved 0 (example_response True False)]
        (example_client AnyValue True None)) = False
   \<and> onError_calls (exec example_deps
        [Submit ''q'', FetchResolved 0 (example_response True False)]
        (example_client AnyValue True None))
       = [JSError ''Error'' ''The response body is empty.'']
   \<and> error (exec example_deps
        [Submit ''q'', FetchResolved 0 (example_response False True),
         TextResolved 0 (Some ''Not Found'')]
        (example_client AnyValue True None))
       = Some (JSError ''Error'' ''Not Found'')
   \<and> loading (exec example_deps
        [Submit ''q'', FetchResolved 0 (example_response False True),
         TextResolved 0 (Some ''Not Found'')]
        (example_client AnyValue True None)) = False
   \<and> onError_calls (exec example_deps
        [Submit ''q'', FetchResolved 0 (example_response False True),
         Rejected 0 (ThrownOther ''reset'')]
        (example_client AnyValue True None))
       = [JSError ''Error'' ''reset'']"
proof -
  let ?w0 = "step example_deps (Submit ''q'') (example_client AnyValue True None)"
  let ?w1 = "step example_deps (FetchResolved 0 (example_response False True)) ?w0"
  have nab: "\<forall>m. \<not> isAbortError example_deps (ThrownError (JSError ''Error'' m))"
    by (simp add: example_deps_def)
  have h0: "waiting ?w0 0 AwaitFetch \<and> onError (options ?w0) \<and> onError_calls ?w0 = []"
    by (simp add: handler_defs example_defs Let_def)
  have r0: "ok (example_response True False) \<and> \<not> has_body (example_response True False)
          \<and> \<not> ok (example_response False True)"
    by (simp add: example_response_def)
  have h1: "waiting ?w1 0 AwaitText \<and> onError (options ?w1) \<and> onError_calls ?w1 = []"
    by (simp add: handler_defs example_defs Let_def)
  have x: "\<not> isAbortError example_deps (ThrownOther ''reset'')"
    by (simp add: example_deps_def)
  from http_failure_surfaces_error [OF nab, of ?w0 0 "example_response True False"]
       http_failure_surfaces_error [OF nab, of ?w1 0 _ "Some ''Not Found''" "ThrownOther ''reset''"]
       nab h0 r0 h1 x
  show ?thesis by (simp add: handler_defs example_defs Let_def)
qed

text \<open>
  C5. For a call of \<^verbatim>\<open>stop\<close> while activation \<open>k\<close> of \<^verbatim>\<open>submit\<close> has not returned:
  \<^verbatim>\<open>stop\<close> leaves the stored objects and the field \<^verbatim>\<open>error\<close> as they are, aborts the
  controller the client holds, clears the controller and sets \<^verbatim>\<open>loading\<close> to false.
  When the awaited promise then rejects with a value that \<^verbatim>\<open>isAbortError\<close> accepts,
  \<^verbatim>\<open>submit\<close> returns: the object and \<^verbatim>\<open>error\<close> are still what they were before \<^verbatim>\<open>stop\<close>,
  \<^verbatim>\<open>loading\<close> is false, and neither \<^verbatim>\<open>onError\<close> nor \<^verbatim>\<open>onFinish\<close> has been invoked.
\<close>

theorem stop_keeps_object_and_reports_nothing:
  assumes "k < length (calls w)"
    and "phase (calls w ! k) \<noteq> Returned"
    and "isAbortError d x"
  shows "objects (step d Stop w) = objects w
       \<and> object (step d Stop w) = object w
       \<and> error (step d Stop w) = error w
       \<and> loading (step d Stop w) = False
       \<and> abortController (step d Stop w) = None
       \<and> aborted (step d Stop w)
           = (case abortController w of None \<Rightarrow> aborted w | Some c \<Rightarrow> aborted w @ [c])
       \<and> object (step d (Rejected k x) (step d Stop w)) = object w
       \<and> error (step d (Rejected k x) (step d Stop w)) = error w
       \<and> loading (step d (Rejected k x) (step d Stop w)) = False
       \<and> onError_calls (step d (Rejected k x) (step d Stop w)) = onError_calls w
       \<and> onFinish_calls (step d (Rejected k x) (step d Stop w)) = onFinish_calls w
       \<and> phase (calls (step d (Rejected k x) (step d Stop w)) ! k) = Returned"
  using assms by (simp add: handler_defs Let_def)

text \<open>On the instance: stopping after the chunk \<^verbatim>\<open>"12"\<close> keeps the object 2.\<close>

theorem stop_keeps_object_and_reports_nothing_witness:
  "0 < length (calls (example_streaming AnyValue True))
   \<and> phase (calls (example_streaming AnyValue True) ! 0) \<noteq> Returned
   \<and> isAbortError example_deps (ThrownError (JSError ''AbortError'' ''aborted''))
   \<and> object (exec example_deps
        [Stop, Rejected 0 (ThrownError (JSError ''AbortError'' ''aborted''))]
        (example_streaming AnyValue True)) = Some 2
   \<and> error (exec example_deps
        [Stop, Rejected 0 (ThrownError (JSError ''AbortError'' ''aborted''))]
        (example_streaming AnyValue True)) = None
   \<and> loading (exec example_deps
        [Stop, Rejected 0 (ThrownError (JSError ''AbortError'' ''aborted''))]
        (example_streaming AnyValue True)) = False
   \<and> onError_calls (exec example_deps
        [Stop, Rejected 0 (ThrownError (JSError ''AbortError'' ''aborted''))]
        (example_streaming AnyValue True)) = []
   \<and> aborted (step example_deps Stop (example_streaming AnyValue True)) = [0]"
proof -
  let ?w = "example_streaming AnyValue True"
  have h1: "0 < length (calls ?w)"
    by (simp add: handler_defs example_defs Let_def)
  have h2: "phase (calls ?w ! 0) \<noteq> Returned"
    by (simp add: handler_defs example_defs Let_def)
  have h3: "isAbortError example_deps (ThrownError (JSError ''AbortError'' ''aborted''))"
    by (simp add: example_deps_def)
  have before: "object ?w = Some 2 \<and> error ?w = None \<and> onError_calls ?w = []
      \<and> abortController ?w = Some 0 \<and> aborted ?w = []"
    by (simp add: handler_defs example_defs Let_def)
  from stop_keeps_object_and_reports_nothing [OF h1 h2 h3] h1 h2 h3 before
  show ?thesis by simp
qed

section \<open>Chunks\<close>



section \<open>The request\<close>

text \<open>
  C8, as amended. When \<^verbatim>\<open>JSON.stringify\<close> returns, \<^verbatim>\<open>submit\<close> issues exactly one request:
  a POST to the configured endpoint (\<^verbatim>\<open>/api/completion\<close> when none is configured) whose
  body is the serialised input. Every entry of headers configured as a plain record is
  among the request's headers, and \<^verbatim>\<open>Content-Type\<close> is \<^verbatim>\<open>application/json\<close> unless the
  configured headers have an entry \<^verbatim>\<open>Content-Type\<close> of their own. When
  \<^verbatim>\<open>JSON.stringify\<close> throws, no request is issued.
\<close>

theorem submit_issues_post_request:
  "(\<forall>b. JSON_stringify d input = Inr b \<longrightarrow>
      (let w' = step d (Submit input) w; r = last (fetch_calls w')
       in fetch_calls w' = fetch_calls w @ [r]
        \<and> req_method r = ''POST''
        \<and> req_url r = (case api (options w) of None \<Rightarrow> ''/api/completion'' | Some a \<Rightarrow> a)
        \<and> req_body r = b
        \<and> (\<forall>m h v. headers (options w) = Some (PlainRecord m) \<and> m h = Some v
              \<longrightarrow> req_headers r h = Some v)
        \<and> (spread (headers (options w)) ''Content-Type'' = None
              \<longrightarrow> req_headers r ''Content-Type'' = Some ''application/json'')))
   \<and> (\<forall>x. JSON_stringify d input = Inl x \<longrightarrow>
        fetch_calls (step d (Submit input) w) = fetch_calls w)"
  by (auto simp add: handler_defs Let_def api_of_def map_add_def)

text \<open>On the instance, with the one configured header \<^verbatim>\<open>X-Key\<close>.\<close>

theorem submit_issues_post_request_witness:
  "JSON_stringify example_deps ''q'' = Inr (Some ''q'')
   \<and> fetch_calls (step example_deps (Submit ''q'')
        (example_client AnyValue True (Some (PlainRecord [''X-Key'' \<mapsto> ''1'']))))
       = [last (fetch_calls (step example_deps (Submit ''q'')
            (example_client AnyValue True (Some (PlainRecord [''X-Key'' \<mapsto> ''1''])))))]
   \<and> req_method (last (fetch_calls (step example_deps (Submit ''q'')
        (example_client AnyValue True (Some (PlainRecord [''X-Key'' \<mapsto> ''1'']))))))
       = ''POST''
   \<and> req_url (last (fetch_calls (step example_deps (Submit ''q'')
        (example_client AnyValue True (Some (PlainRecord [''X-Key'' \<mapsto> ''1'']))))))
       = ''/api/object''
   \<and> req_body (last (fetch_calls (step example_deps (Submit ''q'')
        (example_client AnyValue True (Some (PlainRecord [''X-Key'' \<mapsto> ''1'']))))))
       = Some ''q''
   \<and> req_headers (last (fetch_calls (step example_deps (Submit ''q'')
        (example_client AnyValue True (Some (PlainRecord [''X-Key'' \<mapsto> ''1'']))))))
        ''X-Key'' = Some ''1''
   \<and> req_headers (last (fetch_calls (step example_deps (Submit ''q'')
        (example_client AnyValue True (Some (PlainRecord [''X-Key'' \<mapsto> ''1'']))))))
        ''Content-Type'' = Some ''application/json''"
proof -
  let ?w = "example_client AnyValue True (Some (PlainRecord [''X-Key'' \<mapsto> ''1'']))"
  have s: "JSON_stringify example_deps ''q'' = Inr (Some ''q'')"
    by (simp add: example_deps_def)
  have before: "fetch_calls ?w = [] \<and> api (options ?w) = Some ''/api/object''
      \<and> headers (options ?w) = Some (PlainRecord [''X-Key'' \<mapsto> ''1''])"
    by (simp add: example_defs Let_def)
  have hs: "[''X-Key'' \<mapsto> ''1''] ''X-Key'' = Some ''1''
      \<and> spread (Some (PlainRecord [''X-Key'' \<mapsto> ''1''])) ''Content-Type'' = None"
    by simp
  from submit_issues_post_request [of example_deps "''q''" ?w] s before hs
  show ?thesis by (simp add: Let_def)
qed

text \<open>
  C8 as it is written fails: configured headers with an entry \<^verbatim>\<open>Content-Type\<close> replace
  \<^verbatim>\<open>application/json\<close> in the request.
\<close>

theorem configured_content_type_wins:
  "req_headers (last (fetch_calls (step example_deps (Submit ''q'')
      (example_client AnyValue True
         (Some (PlainRecord [''Content-Type'' \<mapsto> ''text/plain'']))))))
     ''Content-Type'' = Some ''text/plain''"
  by (simp add: handler_defs example_defs Let_def)

section \<open>Default settings\<close>

text \<open>
  C9. In the object that \<^verbatim>\<open>transformParams\<close> returns, \<^verbatim>\<open>providerMetadata\<close> is
  \<^verbatim>\<open>mergeObjects(settings.providerMetadata, params.providerMetadata)\<close>; every other key
  present in \<^verbatim>\<open>params\<close> has the value \<^verbatim>\<open>params\<close> gives it, and every other key absent from
  \<^verbatim>\<open>params\<close> is as in \<^verbatim>\<open>settings\<close>.
\<close>

theorem transformParams_params_over_settings:
  "transformParams (defaultSettingsMiddleware mergeObjects settings) params ''providerMetadata''
     = Some (mergeObjects (read_property settings ''providerMetadata'')
                          (read_property params ''providerMetadata''))
   \<and> (\<forall>k v. k \<noteq> ''providerMetadata'' \<and> params k = Some v \<longrightarrow>
         transformParams (defaultSettingsMiddleware mergeObjects settings) params k = Some v)
   \<and> (\<forall>k. k \<noteq> ''providerMetadata'' \<and> params k = None \<longrightarrow>
         transformParams (defaultSettingsMiddleware mergeObjects settings) params k
           = settings k)"
  by (simp add: defaultSettingsMiddleware_def map_add_def)

text \<open>
  On the instance: \<^verbatim>\<open>temperature\<close> comes from the params, \<^verbatim>\<open>seed\<close> from the settings, and
  the provider metadata are merged.
\<close>

theorem transformParams_params_over_settings_witness:
  "''temperature'' \<noteq> ''providerMetadata''
   \<and> example_params ''temperature'' = Some (Some (Num 2))
   \<and> transformParams (defaultSettingsMiddleware example_mergeObjects example_settings)
       example_params ''temperature'' = Some (Some (Num 2))
   \<and> ''seed'' \<noteq> ''providerMetadata''
   \<and> example_params ''seed'' = None
   \<and> transformParams (defaultSettingsMiddleware example_mergeObjects example_settings)
       example_params ''seed'' = Some (Some (Num 3))
   \<and> transformParams (defaultSettingsMiddleware example_mergeObjects example_settings)
       example_params ''providerMetadata'' = Some (Some (Rec [(''a'', 1), (''b'', 5)]))"
proof -
  have p: "''temperature'' \<noteq> ''providerMetadata''
      \<and> example_params ''temperature'' = Some (Some (Num 2))
      \<and> ''seed'' \<noteq> ''providerMetadata'' \<and> example_params ''seed'' = None"
    by (simp add: example_params_def)
  have s: "example_settings ''seed'' = Some (Some (Num 3))
      \<and> read_property example_settings ''providerMetadata'' = Some (Rec [(''a'', 1), (''b'', 2)])
      \<and> read_property example_params ''providerMetadata'' = Some (Rec [(''b'', 5)])"
    by (simp add: example_settings_def example_params_def read_property_def)
  from transformParams_params_over_settings
         [of example_mergeObjects example_settings example_params] p s
  show ?thesis by simp
qed

end
